theory Spec2Isabelle
  imports Complex_Main "HOL-Library.Sublist"
begin

section \<open>Python values and exceptions\<close>

text \<open>
  The repository is three Python modules: \<^verbatim>\<open>metrics.py\<close> (the accumulators
  WaitingTime and Throughput), \<^verbatim>\<open>visualisation.py\<close> (FundamentalDiagram and
  TimeDistance) and \<^verbatim>\<open>data_collector.py\<close> (the DataCollector step listener).
  Methods mutate \<^verbatim>\<open>self\<close>; here each method takes the object and returns the
  updated one. A method that can raise returns a sum: \<open>Inr\<close> the object after a normal
  return, \<open>Inl\<close> the exception together with the object as the raise leaves it (Python
  keeps the mutations made before the raise).

  Python floats are modelled by \<open>real\<close>, Python ints by \<open>int\<close>, \<^verbatim>\<open>len\<close> of a
  collection by a \<open>nat\<close>. A set, a dict or a list passed to a method is a value: the
  collector builds a new one for every call (\<^verbatim>\<open>set(vehicle_ids)\<close>, a new dict of
  averages), so no caller changes one after passing it.
\<close>

datatype py_error = IndexError | KeyError | ZeroDivisionError

type_synonym 's raising = "(py_error \<times> 's) + 's"

section \<open>metrics.py\<close>

subsection \<open>class WaitingTime\<close>

record WaitingTime =
  waiting_times :: "(string \<rightharpoonup> real) list"

definition WaitingTime_init :: "WaitingTime" where
  "WaitingTime_init = \<lparr>waiting_times = []\<rparr>"

definition WaitingTime_update :: "WaitingTime \<Rightarrow> (string \<rightharpoonup> real) \<Rightarrow> WaitingTime" where
  "WaitingTime_update self average_waiting_times =
     self\<lparr>waiting_times := waiting_times self @ [average_waiting_times]\<rparr>"

subsection \<open>class Throughput\<close>

record Throughput =
  tp_vehicles_in_edge :: "string \<rightharpoonup> string set"
  vehicles_left_count :: "string \<rightharpoonup> nat list"
  edge_ids :: "string list option"

definition Throughput_init :: "string list option \<Rightarrow> Throughput" where
  "Throughput_init ids =
     \<lparr>tp_vehicles_in_edge = Map.empty, vehicles_left_count = Map.empty, edge_ids = ids\<rparr>"

text \<open>
  \<^verbatim>\<open>Throughput.update\<close>. The branch on \<^verbatim>\<open>edge_id in self.vehicles_in_edge\<close>
  either computes the size of the set difference or creates the empty count list; the
  last statement reads \<^verbatim>\<open>self.vehicles_left_count[edge_id]\<close>, which raises KeyError
  when the key is absent (after \<^verbatim>\<open>vehicles_in_edge\<close> has been assigned).
\<close>

definition Throughput_update ::
  "Throughput \<Rightarrow> string \<Rightarrow> string set \<Rightarrow> Throughput raising" where
  "Throughput_update self edge_id vehicle_ids =
     (let (self1, left_count) =
            (case tp_vehicles_in_edge self edge_id of
               Some previous \<Rightarrow> (self, card (previous - vehicle_ids))
             | None \<Rightarrow>
                 (self\<lparr>vehicles_left_count := (vehicles_left_count self)(edge_id \<mapsto> [])\<rparr>, 0));
          self2 = self1\<lparr>tp_vehicles_in_edge :=
                          (tp_vehicles_in_edge self1)(edge_id \<mapsto> vehicle_ids)\<rparr>
      in case vehicles_left_count self2 edge_id of
           None \<Rightarrow> Inl (KeyError, self2)
         | Some counts \<Rightarrow>
             Inr (self2\<lparr>vehicles_left_count :=
                          (vehicles_left_count self2)(edge_id \<mapsto> counts @ [left_count])\<rparr>))"

text \<open>A caller making a sequence of \<^verbatim>\<open>update\<close> calls, stopping at the first raise.\<close>

fun Throughput_updates ::
  "Throughput \<Rightarrow> (string \<times> string set) list \<Rightarrow> Throughput raising" where
  "Throughput_updates self [] = Inr self"
| "Throughput_updates self ((edge_id, vehicle_ids) # calls) =
     (case Throughput_update self edge_id vehicle_ids of
        Inl err \<Rightarrow> Inl err
      | Inr self' \<Rightarrow> Throughput_updates self' calls)"

text \<open>
  The departed-counts as the specification words them: given the set of the previous
  observation of the edge (\<open>None\<close> before the first one), each observation records 0
  when there is no previous one and the size of previous minus current otherwise.
\<close>

fun spec_departed_from :: "string set option \<Rightarrow> string set list \<Rightarrow> nat list" where
  "spec_departed_from previous [] = []"
| "spec_departed_from previous (now # later) =
     (case previous of None \<Rightarrow> 0 | Some p \<Rightarrow> card (p - now))
       # spec_departed_from (Some now) later"

definition spec_departed_counts :: "string set list \<Rightarrow> nat list" where
  "spec_departed_counts observations = spec_departed_from None observations"

definition observations_of :: "string \<Rightarrow> (string \<times> string set) list \<Rightarrow> string set list" where
  "observations_of edge_id calls = map snd (filter (\<lambda>c. fst c = edge_id) calls)"

section \<open>visualisation.py\<close>

text \<open>
  \<^verbatim>\<open>d[k].append(v)\<close> on a dict of lists: \<open>None\<close> stands for the KeyError of the
  lookup \<^verbatim>\<open>d[k]\<close>.
\<close>

definition dict_append :: "('k \<rightharpoonup> 'a list) \<Rightarrow> 'k \<Rightarrow> 'a \<Rightarrow> ('k \<rightharpoonup> 'a list) option" where
  "dict_append d k v = (case d k of None \<Rightarrow> None | Some l \<Rightarrow> Some (d(k \<mapsto> l @ [v])))"

text \<open>
  \<^verbatim>\<open>xs[i] = v\<close> on a Python list: a negative index counts from the end, and an index
  outside \<open>-len \<le> i < len\<close> raises IndexError (\<open>None\<close> here).
\<close>

definition list_setitem :: "'a list \<Rightarrow> int \<Rightarrow> 'a \<Rightarrow> 'a list option" where
  "list_setitem xs i v =
     (let len = int (length xs);
          index = (if i < 0 then i + len else i)
      in if index < 0 \<or> len \<le> index then None else Some (xs[nat index := v]))"

subsection \<open>class FundamentalDiagram\<close>

text \<open>
  \<^verbatim>\<open>self.data\<close> is a dict with the three keys \<^verbatim>\<open>'speed'\<close>, \<^verbatim>\<open>'flow'\<close> and
  \<^verbatim>\<open>'vehicle_count'\<close>; the counts are stored as numbers beside the speeds.
\<close>

record FundamentalDiagram =
  fd_edge_id :: string
  fd_data :: "string \<rightharpoonup> real list"
  fd_vehicles_in_edge :: "string set"
  edge_length :: real

definition FundamentalDiagram_init :: "string \<Rightarrow> FundamentalDiagram" where
  "FundamentalDiagram_init edge_id =
     \<lparr>fd_edge_id = edge_id,
      fd_data = [''speed'' \<mapsto> [], ''flow'' \<mapsto> [], ''vehicle_count'' \<mapsto> []],
      fd_vehicles_in_edge = {},
      edge_length = 0\<rparr>"

definition FundamentalDiagram_update ::
  "FundamentalDiagram \<Rightarrow> real \<Rightarrow> string set \<Rightarrow> FundamentalDiagram raising" where
  "FundamentalDiagram_update self mean_speed vehicle_ids =
     (case dict_append (fd_data self) ''speed'' (mean_speed * 3.6) of
        None \<Rightarrow> Inl (KeyError, self)
      | Some d1 \<Rightarrow>
          (let self1 = self\<lparr>fd_data := d1\<rparr>;
               count = card vehicle_ids
           in case dict_append (fd_data self1) ''vehicle_count'' (real count) of
                None \<Rightarrow> Inl (KeyError, self1)
              | Some d2 \<Rightarrow>
                  (let self2 = self1\<lparr>fd_data := d2\<rparr>;
                       left_count = card (fd_vehicles_in_edge self2 - vehicle_ids);
                       self3 = self2\<lparr>fd_vehicles_in_edge := vehicle_ids\<rparr>
                   in case dict_append (fd_data self3) ''flow'' (real left_count) of
                        None \<Rightarrow> Inl (KeyError, self3)
                      | Some d3 \<Rightarrow> Inr (self3\<lparr>fd_data := d3\<rparr>))))"

text \<open>A caller making a sequence of \<^verbatim>\<open>update\<close> calls, stopping at the first raise.\<close>

fun FundamentalDiagram_updates ::
  "FundamentalDiagram \<Rightarrow> (real \<times> string set) list \<Rightarrow> FundamentalDiagram raising" where
  "FundamentalDiagram_updates self [] = Inr self"
| "FundamentalDiagram_updates self ((mean_speed, vehicle_ids) # calls) =
     (case FundamentalDiagram_update self mean_speed vehicle_ids of
        Inl err \<Rightarrow> Inl err
      | Inr self' \<Rightarrow> FundamentalDiagram_updates self' calls)"

text \<open>\<^verbatim>\<open>len(self.data[k])\<close>, with \<open>None\<close> for the KeyError.\<close>

definition data_len :: "FundamentalDiagram \<Rightarrow> string \<Rightarrow> nat option" where
  "data_len self k = map_option length (fd_data self k)"

subsection \<open>class TimeDistance\<close>

text \<open>A slot of a vehicle's array: the sentinel \<^verbatim>\<open>np.NaN\<close> or an observed distance.\<close>

datatype sample = NaN | Dist real

record TimeDistance =
  td_data :: "string \<rightharpoonup> sample list"
  route_edges :: "string \<times> string"
  timespan :: "int \<times> int"
  time_diff :: int
  start_time :: int

text \<open>
  The constructor stores its arguments and the difference of the window bounds. It has no
  \<^verbatim>\<open>raise\<close> and no operation that can fail on a pair of ints: every path is \<open>Inr\<close>.
\<close>

definition TimeDistance_init :: "string \<times> string \<Rightarrow> int \<times> int \<Rightarrow> py_error + TimeDistance" where
  "TimeDistance_init route_edges' timespan' =
     Inr \<lparr>td_data = Map.empty,
          route_edges = route_edges',
          timespan = timespan',
          time_diff = snd timespan' - fst timespan',
          start_time = fst timespan'\<rparr>"

text \<open>
  \<^verbatim>\<open>TimeDistance.update\<close>: \<^verbatim>\<open>[np.NaN]*self.time_diff\<close> is the empty list when
  \<^verbatim>\<open>time_diff\<close> is not positive. The new array is stored before the item assignment,
  so it stays when the assignment raises.
\<close>

definition TimeDistance_update ::
  "TimeDistance \<Rightarrow> string \<Rightarrow> real \<Rightarrow> int \<Rightarrow> TimeDistance raising" where
  "TimeDistance_update self vehicle_id distance time =
     (let time_delta = time - start_time self;
          self1 = (case td_data self vehicle_id of
                     None \<Rightarrow> self\<lparr>td_data := (td_data self)
                                (vehicle_id \<mapsto> replicate (nat (time_diff self)) NaN)\<rparr>
                   | Some _ \<Rightarrow> self)
      in case td_data self1 vehicle_id of
           None \<Rightarrow> Inl (KeyError, self1)
         | Some slots \<Rightarrow>
             (case list_setitem slots time_delta (Dist distance) of
                None \<Rightarrow> Inl (IndexError, self1)
              | Some slots' \<Rightarrow>
                  Inr (self1\<lparr>td_data := (td_data self1)(vehicle_id \<mapsto> slots')\<rparr>)))"

section \<open>data_collector.py\<close>

subsection \<open>The simulation and the objects the collector refers to\<close>

text \<open>
  The queries of \<^verbatim>\<open>libsumo\<close> that the collector makes, as the simulation answers them
  at one moment. The library is not part of the repository; a query is a field here.
\<close>

record traci =
  edge_getIDList :: "string list"
  edge_getWaitingTime :: "string \<Rightarrow> real"
  edge_getLastStepVehicleNumber :: "string \<Rightarrow> int"
  edge_getLastStepVehicleIDs :: "string \<Rightarrow> string list"
  lane_getIDList :: "string list"
  lane_getEdgeID :: "string \<Rightarrow> string"
  lane_getLength :: "string \<Rightarrow> real"
  vehicle_getIDList :: "string list"
  vehicle_getTeleportingIDList :: "string list"
  vehicle_getSpeed :: "string \<Rightarrow> real"
  vehicle_getRoute :: "string \<Rightarrow> string list"
  vehicle_getDistance :: "string \<Rightarrow> real"

text \<open>
  The collector holds references to accumulators that its user created and keeps reading,
  and compares them with \<^verbatim>\<open>==\<close>, which is object identity for these classes (none
  defines \<^verbatim>\<open>__eq__\<close>). So an accumulator is a reference, and the store gives the
  current object behind each reference.
\<close>

type_synonym ref = nat

record store =
  WaitingTime_at :: "ref \<Rightarrow> WaitingTime"
  Throughput_at :: "ref \<Rightarrow> Throughput"
  FundamentalDiagram_at :: "ref \<Rightarrow> FundamentalDiagram"
  TimeDistance_at :: "ref \<Rightarrow> TimeDistance"

subsection \<open>class DataCollector\<close>

record DataCollector =
  dc_id :: "int option"
  edges :: "string list"
  waiting_time :: "ref option"
  throughput :: "ref option"
  fundamental_diagram :: "ref option"
  time_distance_diagram :: "ref option"
  step_count :: int

definition endswith :: "string \<Rightarrow> string \<Rightarrow> bool" where
  "endswith s suffix' = suffix suffix' s"

text \<open>
  The loop of the constructor: \<^verbatim>\<open>edges[-1]\<close> raises IndexError on the empty list,
  \<^verbatim>\<open>edges.pop()\<close> removes the last element.
\<close>

function trim_edges :: "string list \<Rightarrow> py_error + string list" where
  "trim_edges edges' =
     (if edges' = [] then Inl IndexError
      else if endswith (last edges') ''-sink'' \<or> endswith (last edges') ''-source''
           then trim_edges (butlast edges')
           else Inr edges')"
  by pat_completeness auto
termination
  by (relation "measure length") auto

declare trim_edges.simps [simp del]

text \<open>
  The constructor; \<open>listener_id\<close> is what \<^verbatim>\<open>traci.addStepListener(self)\<close> returned.
\<close>

definition DataCollector_init :: "traci \<Rightarrow> int option \<Rightarrow> py_error + DataCollector" where
  "DataCollector_init sim listener_id =
     (case trim_edges (edge_getIDList sim) of
        Inl err \<Rightarrow> Inl err
      | Inr edges' \<Rightarrow>
          Inr \<lparr>dc_id = listener_id, edges = edges', waiting_time = None, throughput = None,
               fundamental_diagram = None, time_distance_diagram = None, step_count = 0\<rparr>)"

text \<open>
  \<^verbatim>\<open>stop_collecting\<close>. The effect of \<^verbatim>\<open>traci.removeStepListener\<close> on the library's
  registry is a parameter: a function on the state \<open>'w\<close> of the library.
\<close>

definition stop_collecting ::
  "(int \<Rightarrow> 'w \<Rightarrow> 'w) \<Rightarrow> DataCollector \<times> 'w \<Rightarrow> DataCollector \<times> 'w" where
  "stop_collecting removeStepListener = (\<lambda>(self, w).
     case dc_id self of
       Some i \<Rightarrow> (self\<lparr>dc_id := None\<rparr>, removeStepListener i w)
     | None \<Rightarrow> (self, w))"

definition initialised :: "DataCollector \<Rightarrow> bool" where
  "initialised self \<longleftrightarrow> dc_id self \<noteq> None"

definition add_waiting_time :: "DataCollector \<Rightarrow> ref \<Rightarrow> DataCollector" where
  "add_waiting_time self wt = self\<lparr>waiting_time := Some wt\<rparr>"

definition remove_waiting_time :: "DataCollector \<Rightarrow> ref \<Rightarrow> DataCollector \<times> bool" where
  "remove_waiting_time self wt =
     (if waiting_time self = Some wt then (self\<lparr>waiting_time := None\<rparr>, True)
      else (self, False))"

definition add_throughput :: "DataCollector \<Rightarrow> ref \<Rightarrow> DataCollector" where
  "add_throughput self tp = self\<lparr>throughput := Some tp\<rparr>"

definition remove_throughput :: "DataCollector \<Rightarrow> ref \<Rightarrow> DataCollector \<times> bool" where
  "remove_throughput self tp =
     (if throughput self = Some tp then (self\<lparr>throughput := None\<rparr>, True)
      else (self, False))"

text \<open>
  The loop of \<^verbatim>\<open>add_fundamental_diagram\<close> over the lanes: the length of the first
  lane whose edge is the diagram's, \<open>None\<close> when the loop ends without a \<^verbatim>\<open>break\<close>.
\<close>

fun first_lane_length :: "traci \<Rightarrow> string list \<Rightarrow> string \<Rightarrow> real option" where
  "first_lane_length sim [] edge_id = None"
| "first_lane_length sim (lane # lanes) edge_id =
     (if lane_getEdgeID sim lane = edge_id then Some (lane_getLength sim lane)
      else first_lane_length sim lanes edge_id)"

definition add_fundamental_diagram ::
  "traci \<Rightarrow> DataCollector \<times> store \<Rightarrow> ref \<Rightarrow> (DataCollector \<times> store) raising" where
  "add_fundamental_diagram sim = (\<lambda>(self, h) fd.
     (let self1 = self\<lparr>fundamental_diagram := Some fd\<rparr>;
          obj = FundamentalDiagram_at h fd
      in case first_lane_length sim (lane_getIDList sim) (fd_edge_id obj) of
           None \<Rightarrow> Inr (self1, h)
         | Some lane_length \<Rightarrow>
             Inr (self1, h\<lparr>FundamentalDiagram_at :=
                             (FundamentalDiagram_at h)(fd := obj\<lparr>edge_length := lane_length\<rparr>)\<rparr>)))"

definition remove_fundamental_diagram :: "DataCollector \<Rightarrow> ref \<Rightarrow> DataCollector \<times> bool" where
  "remove_fundamental_diagram self fd =
     (if fundamental_diagram self = Some fd then (self\<lparr>fundamental_diagram := None\<rparr>, True)
      else (self, False))"

definition add_time_distance_diagram :: "DataCollector \<Rightarrow> ref \<Rightarrow> DataCollector" where
  "add_time_distance_diagram self td = self\<lparr>time_distance_diagram := Some td\<rparr>"

definition remove_time_distance_diagram :: "DataCollector \<Rightarrow> ref \<Rightarrow> DataCollector \<times> bool" where
  "remove_time_distance_diagram self td =
     (if time_distance_diagram self = Some td then (self\<lparr>time_distance_diagram := None\<rparr>, True)
      else (self, False))"

subsection \<open>DataCollector.step\<close>

text \<open>\<^verbatim>\<open>a / b\<close> on numbers raises ZeroDivisionError when \<open>b\<close> is zero.\<close>

definition py_truediv :: "real \<Rightarrow> real \<Rightarrow> py_error + real" where
  "py_truediv a b = (if b = 0 then Inl ZeroDivisionError else Inr (a / b))"

text \<open>
  The loop over \<^verbatim>\<open>self.edges\<close> that fills the dict \<^verbatim>\<open>average_wait_times\<close>. The
  conditional expression evaluates the division only in its first branch.
\<close>

fun average_wait_times_loop ::
  "traci \<Rightarrow> string list \<Rightarrow> (string \<rightharpoonup> real) \<Rightarrow> py_error + (string \<rightharpoonup> real)" where
  "average_wait_times_loop sim [] average_wait_times = Inr average_wait_times"
| "average_wait_times_loop sim (edge # rest) average_wait_times =
     (let waiting_time' = edge_getWaitingTime sim edge;
          vehicle_count = edge_getLastStepVehicleNumber sim edge
      in case (if vehicle_count \<noteq> 0 then py_truediv waiting_time' (real_of_int vehicle_count)
               else Inr 0) of
           Inl err \<Rightarrow> Inl err
         | Inr average \<Rightarrow>
             average_wait_times_loop sim rest (average_wait_times(edge \<mapsto> average)))"

definition step_waiting_time :: "traci \<Rightarrow> DataCollector \<Rightarrow> store \<Rightarrow> store raising" where
  "step_waiting_time sim self h =
     (case waiting_time self of
        None \<Rightarrow> Inr h
      | Some wt \<Rightarrow>
          (case average_wait_times_loop sim (edges self) Map.empty of
             Inl err \<Rightarrow> Inl (err, h)
           | Inr average_wait_times \<Rightarrow>
               Inr (h\<lparr>WaitingTime_at := (WaitingTime_at h)
                         (wt := WaitingTime_update (WaitingTime_at h wt) average_wait_times)\<rparr>)))"

fun throughput_loop :: "traci \<Rightarrow> string list \<Rightarrow> ref \<Rightarrow> store \<Rightarrow> store raising" where
  "throughput_loop sim [] tp h = Inr h"
| "throughput_loop sim (edge_id # rest) tp h =
     (let vehicle_ids = edge_getLastStepVehicleIDs sim edge_id
      in case Throughput_update (Throughput_at h tp) edge_id (set vehicle_ids) of
           Inl (err, obj) \<Rightarrow> Inl (err, h\<lparr>Throughput_at := (Throughput_at h)(tp := obj)\<rparr>)
         | Inr obj \<Rightarrow>
             throughput_loop sim rest tp (h\<lparr>Throughput_at := (Throughput_at h)(tp := obj)\<rparr>))"

definition step_throughput :: "traci \<Rightarrow> DataCollector \<Rightarrow> store \<Rightarrow> store raising" where
  "step_throughput sim self h =
     (case throughput self of
        None \<Rightarrow> Inr h
      | Some tp \<Rightarrow>
          (let edge_ids_to_collect =
                 (case edge_ids (Throughput_at h tp) of Some ids \<Rightarrow> ids | None \<Rightarrow> edges self)
           in throughput_loop sim edge_ids_to_collect tp h))"

definition step_fundamental_diagram :: "traci \<Rightarrow> DataCollector \<Rightarrow> store \<Rightarrow> store raising" where
  "step_fundamental_diagram sim self h =
     (case fundamental_diagram self of
        None \<Rightarrow> Inr h
      | Some fd \<Rightarrow>
          (let vehicle_ids = edge_getLastStepVehicleIDs sim (fd_edge_id (FundamentalDiagram_at h fd));
               vehicle_count = length vehicle_ids
           in case (if vehicle_count \<noteq> 0
                    then py_truediv (sum_list (map (vehicle_getSpeed sim) vehicle_ids))
                                    (real vehicle_count)
                    else Inr 0) of
                Inl err \<Rightarrow> Inl (err, h)
              | Inr mean_velocity \<Rightarrow>
                  (case FundamentalDiagram_update (FundamentalDiagram_at h fd)
                          mean_velocity (set vehicle_ids) of
                     Inl (err, obj) \<Rightarrow>
                       Inl (err, h\<lparr>FundamentalDiagram_at := (FundamentalDiagram_at h)(fd := obj)\<rparr>)
                   | Inr obj \<Rightarrow>
                       Inr (h\<lparr>FundamentalDiagram_at := (FundamentalDiagram_at h)(fd := obj)\<rparr>))))"

text \<open>
  The loop over the vehicles that are not teleporting. \<^verbatim>\<open>route[0]\<close> raises IndexError
  on an empty route; \<^verbatim>\<open>route[-1]\<close> is evaluated only after it.
\<close>

fun time_distance_loop :: "traci \<Rightarrow> int \<Rightarrow> string list \<Rightarrow> ref \<Rightarrow> store \<Rightarrow> store raising" where
  "time_distance_loop sim step_count' [] td h = Inr h"
| "time_distance_loop sim step_count' (vehicle # rest) td h =
     (let route = vehicle_getRoute sim vehicle;
          obj = TimeDistance_at h td
      in if route = [] then Inl (IndexError, h)
         else if hd route = fst (route_edges obj) \<and> last route = snd (route_edges obj)
         then (let distance = vehicle_getDistance sim vehicle
               in case TimeDistance_update obj vehicle distance step_count' of
                    Inl (err, obj') \<Rightarrow>
                      Inl (err, h\<lparr>TimeDistance_at := (TimeDistance_at h)(td := obj')\<rparr>)
                  | Inr obj' \<Rightarrow>
                      time_distance_loop sim step_count' rest td
                        (h\<lparr>TimeDistance_at := (TimeDistance_at h)(td := obj')\<rparr>))
         else time_distance_loop sim step_count' rest td h)"

text \<open>
  \<^verbatim>\<open>set(vehicles).difference(set(teleporting))\<close> is iterated in the order of the
  vehicle list here; Python leaves the order of a set open.
\<close>

definition step_time_distance :: "traci \<Rightarrow> DataCollector \<Rightarrow> store \<Rightarrow> store raising" where
  "step_time_distance sim self h =
     (case time_distance_diagram self of
        None \<Rightarrow> Inr h
      | Some td \<Rightarrow>
          (let obj = TimeDistance_at h td
           in if fst (timespan obj) \<le> step_count self \<and> snd (timespan obj) > step_count self
              then (let vehicles = filter (\<lambda>v. v \<notin> set (vehicle_getTeleportingIDList sim))
                                     (remdups (vehicle_getIDList sim))
                    in time_distance_loop sim (step_count self) vehicles td h)
              else Inr h))"

text \<open>
  \<^verbatim>\<open>step\<close> runs the four blocks in turn, increments \<^verbatim>\<open>step_count\<close> and returns
  \<^verbatim>\<open>True\<close>. Its argument \<^verbatim>\<open>step\<close> is not used. A raise leaves the collector and the
  objects as they are at that point.
\<close>

definition step ::
  "traci \<Rightarrow> DataCollector \<times> store \<Rightarrow> int \<Rightarrow> (py_error \<times> DataCollector \<times> store) + ((DataCollector \<times> store) \<times> bool)" where
  "step sim = (\<lambda>(self, h) step_arg.
     case step_waiting_time sim self h of
       Inl (err, h1) \<Rightarrow> Inl (err, self, h1)
     | Inr h1 \<Rightarrow>
    (case step_throughput sim self h1 of
       Inl (err, h2) \<Rightarrow> Inl (err, self, h2)
     | Inr h2 \<Rightarrow>
    (case step_fundamental_diagram sim self h2 of
       Inl (err, h3) \<Rightarrow> Inl (err, self, h3)
     | Inr h3 \<Rightarrow>
    (case step_time_distance sim self h3 of
       Inl (err, h4) \<Rightarrow> Inl (err, self, h4)
     | Inr h4 \<Rightarrow> Inr ((self\<lparr>step_count := step_count self + 1\<rparr>, h4), True)))))"

text \<open>The objects after a call of \<^verbatim>\<open>step\<close>, however it ended.\<close>

definition store_after :: "(py_error \<times> DataCollector \<times> store) + ((DataCollector \<times> store) \<times> bool) \<Rightarrow> store" where
  "store_after r = (case r of Inl (err, self, h) \<Rightarrow> h | Inr ((self, h), b) \<Rightarrow> h)"

section \<open>Invariants of the accumulators\<close>

text \<open>
  \<^verbatim>\<open>Throughput\<close> creates the two entries of an edge together, so the two dicts have
  the same keys.
\<close>

definition throughput_consistent :: "Throughput \<Rightarrow> bool" where
  "throughput_consistent self \<longleftrightarrow> dom (tp_vehicles_in_edge self) = dom (vehicles_left_count self)"

text \<open>
  \<^verbatim>\<open>TimeDistance\<close> computes \<^verbatim>\<open>time_diff\<close> and \<^verbatim>\<open>start_time\<close> from the window in the
  constructor and never assigns them again, and every array it creates has
  \<^verbatim>\<open>time_diff\<close> slots (none when \<^verbatim>\<open>time_diff\<close> is not positive).
\<close>

definition td_wf :: "TimeDistance \<Rightarrow> bool" where
  "td_wf self \<longleftrightarrow>
     time_diff self = snd (timespan self) - fst (timespan self) \<and>
     start_time self = fst (timespan self) \<and>
     (\<forall>slots \<in> ran (td_data self). length slots = nat (time_diff self))"

text \<open>The array that \<^verbatim>\<open>update\<close> assigns into: the vehicle's own or a new one.\<close>

definition slots_before :: "TimeDistance \<Rightarrow> string \<Rightarrow> sample list" where
  "slots_before self vehicle_id =
     (case td_data self vehicle_id of
        None \<Rightarrow> replicate (nat (time_diff self)) NaN
      | Some slots \<Rightarrow> slots)"

section \<open>Specification functions and sample data\<close>

text \<open>
  The tracked edge set as the specification words it: the edge list without its trailing
  edges whose identifier ends in \<^verbatim>\<open>-sink\<close> or \<^verbatim>\<open>-source\<close>.
\<close>

definition boundary :: "string \<Rightarrow> bool" where
  "boundary e \<longleftrightarrow> endswith e ''-sink'' \<or> endswith e ''-source''"

definition spec_tracked_edges :: "string list \<Rightarrow> string list" where
  "spec_tracked_edges es = rev (dropWhile boundary (rev es))"

text \<open>
  The average waiting time of an edge as the specification words it: 0 when the edge has
  no vehicle, the waiting time divided by the number of vehicles otherwise.
\<close>

definition spec_average :: "traci \<Rightarrow> string \<Rightarrow> real" where
  "spec_average sim edge =
     (if edge_getLastStepVehicleNumber sim edge = 0 then 0
      else edge_getWaitingTime sim edge / real_of_int (edge_getLastStepVehicleNumber sim edge))"

text \<open>
  A result of one block of \<^verbatim>\<open>step\<close> that leaves every WaitingTime object as it was
  and is not a ZeroDivisionError.
\<close>

definition keeps_waiting_times :: "store \<Rightarrow> store raising \<Rightarrow> bool" where
  "keeps_waiting_times h r =
     (case r of
        Inl (err, h') \<Rightarrow> err \<noteq> ZeroDivisionError \<and> WaitingTime_at h' = WaitingTime_at h
      | Inr h' \<Rightarrow> WaitingTime_at h' = WaitingTime_at h)"

text \<open>
  A small simulation: two edges and a sink, one lane per edge, two vehicles on the first
  edge. The objects behind all references are new accumulators; the FundamentalDiagram
  ones are for an edge \<^verbatim>\<open>e9\<close> that has no lane.
\<close>

definition demo_sim :: traci where
  "demo_sim =
     \<lparr>edge_getIDList = [''e1'', ''e2'', ''out-sink''],
      edge_getWaitingTime = (\<lambda>e. if e = ''e1'' then 6 else 0),
      edge_getLastStepVehicleNumber = (\<lambda>e. if e = ''e1'' then 2 else 0),
      edge_getLastStepVehicleIDs = (\<lambda>e. if e = ''e1'' then [''veh0'', ''veh1''] else []),
      lane_getIDList = [''e1_0'', ''e2_0''],
      lane_getEdgeID = (\<lambda>l. if l = ''e1_0'' then ''e1'' else ''e2''),
      lane_getLength = (\<lambda>l. if l = ''e1_0'' then 100 else 50),
      vehicle_getIDList = [''veh0'', ''veh1''],
      vehicle_getTeleportingIDList = [],
      vehicle_getSpeed = (\<lambda>v. 10),
      vehicle_getRoute = (\<lambda>v. [''e1'', ''e2'']),
      vehicle_getDistance = (\<lambda>v. if v = ''veh0'' then 30 else 12)\<rparr>"

definition demo_store :: store where
  "demo_store =
     \<lparr>WaitingTime_at = (\<lambda>r. WaitingTime_init),
      Throughput_at = (\<lambda>r. Throughput_init None),
      FundamentalDiagram_at = (\<lambda>r. FundamentalDiagram_init ''e9''),
      TimeDistance_at = (\<lambda>r. \<lparr>td_data = Map.empty, route_edges = (''e1'', ''e2''),
                                timespan = (0, 3), time_diff = 3, start_time = 0\<rparr>)\<rparr>"

definition demo_collector :: DataCollector where
  "demo_collector =
     \<lparr>dc_id = Some 0, edges = [''e1'', ''e2''], waiting_time = Some 1, throughput = Some 2,
      fundamental_diagram = Some 3, time_distance_diagram = Some 4, step_count = 0\<rparr>"

section \<open>Throughput: departed counts\<close>

lemma throughput_consistent_init: "throughput_consistent (Throughput_init ids)"
  by (simp add: throughput_consistent_def Throughput_init_def)

lemma Throughput_update_first:
  assumes "tp_vehicles_in_edge self e = None"
  shows "Throughput_update self e vs =
           Inr (self\<lparr>vehicles_left_count := (vehicles_left_count self)(e \<mapsto> [0]),
                     tp_vehicles_in_edge := (tp_vehicles_in_edge self)(e \<mapsto> vs)\<rparr>)"
  using assms by (simp add: Throughput_update_def)

lemma Throughput_update_later:
  assumes "tp_vehicles_in_edge self e = Some p" and "vehicles_left_count self e = Some l"
  shows "Throughput_update self e vs =
           Inr (self\<lparr>tp_vehicles_in_edge := (tp_vehicles_in_edge self)(e \<mapsto> vs),
                     vehicles_left_count := (vehicles_left_count self)(e \<mapsto> l @ [card (p - vs)])\<rparr>)"
  using assms by (simp add: Throughput_update_def)

lemma Throughput_update_consistent:
  assumes "throughput_consistent t0"
  shows "\<exists>t. Throughput_update t0 e' vs = Inr t \<and> throughput_consistent t \<and>
     tp_vehicles_in_edge t = (tp_vehicles_in_edge t0)(e' \<mapsto> vs) \<and>
     vehicles_left_count t = (vehicles_left_count t0)(e' \<mapsto>
        (case vehicles_left_count t0 e' of None \<Rightarrow> [] | Some l \<Rightarrow> l) @
        [case tp_vehicles_in_edge t0 e' of None \<Rightarrow> 0 | Some p \<Rightarrow> card (p - vs)])"
proof (cases "tp_vehicles_in_edge t0 e'")
  case None
  with assms have "vehicles_left_count t0 e' = None"
    unfolding throughput_consistent_def by (metis domIff)
  with None assms show ?thesis
    by (simp add: Throughput_update_first throughput_consistent_def)
next
  case (Some p)
  with assms obtain l where l: "vehicles_left_count t0 e' = Some l"
    unfolding throughput_consistent_def by (metis domD domI)
  with Some assms show ?thesis
    by (simp add: Throughput_update_later throughput_consistent_def)
qed

lemma Throughput_updates_general:
  assumes "throughput_consistent t0"
  shows "\<exists>t. Throughput_updates t0 calls = Inr t \<and> throughput_consistent t \<and>
     vehicles_left_count t e =
       (if observations_of e calls = [] then vehicles_left_count t0 e
        else Some ((case vehicles_left_count t0 e of None \<Rightarrow> [] | Some l \<Rightarrow> l) @
                   spec_departed_from (tp_vehicles_in_edge t0 e) (observations_of e calls))) \<and>
     tp_vehicles_in_edge t e =
       (if observations_of e calls = [] then tp_vehicles_in_edge t0 e
        else Some (last (observations_of e calls)))"
  using assms
proof (induction calls arbitrary: t0)
  case Nil
  then show ?case by (simp add: observations_of_def)
next
  case (Cons c calls)
  obtain e' vs where c: "c = (e', vs)" by (cases c)
  from Throughput_update_consistent[OF Cons.prems, of e' vs]
  obtain t1 where t1: "Throughput_update t0 e' vs = Inr t1" "throughput_consistent t1"
     "tp_vehicles_in_edge t1 = (tp_vehicles_in_edge t0)(e' \<mapsto> vs)"
     "vehicles_left_count t1 = (vehicles_left_count t0)(e' \<mapsto>
        (case vehicles_left_count t0 e' of None \<Rightarrow> [] | Some l \<Rightarrow> l) @
        [case tp_vehicles_in_edge t0 e' of None \<Rightarrow> 0 | Some p \<Rightarrow> card (p - vs)])"
    by blast
  from Cons.IH[OF t1(2)] obtain t where t:
    "Throughput_updates t1 calls = Inr t" "throughput_consistent t"
    "vehicles_left_count t e =
       (if observations_of e calls = [] then vehicles_left_count t1 e
        else Some ((case vehicles_left_count t1 e of None \<Rightarrow> [] | Some l \<Rightarrow> l) @
                   spec_departed_from (tp_vehicles_in_edge t1 e) (observations_of e calls)))"
    "tp_vehicles_in_edge t e =
       (if observations_of e calls = [] then tp_vehicles_in_edge t1 e
        else Some (last (observations_of e calls)))"
    by blast
  have run: "Throughput_updates t0 (c # calls) = Inr t"
    by (simp add: c t1(1) t(1))
  show ?case
  proof (cases "e' = e")
    case True
    then have obs: "observations_of e (c # calls) = vs # observations_of e calls"
      by (simp add: observations_of_def c)
    show ?thesis
      using run t(2) t(3) t(4) t1(3) t1(4) True obs by simp
  next
    case False
    then have obs: "observations_of e (c # calls) = observations_of e calls"
      by (simp add: observations_of_def c)
    show ?thesis
      using run t(2) t(3) t(4) t1(3) t1(4) False obs by simp
  qed
qed

text \<open>
  Claim C1. Start from a new Throughput accumulator and make any sequence of
  \<^verbatim>\<open>update\<close> calls, for any edges in any interleaving. No call raises, and the list
  recorded for an edge is absent when the edge was never observed and otherwise holds, for
  the observations of that edge in call order, 0 for the first one and for each later one
  the number of vehicles of the previous observation of that edge that are missing from
  the current one. For an edge observed with {A, B}, then {B, C}, then {} the recorded
  list is [0, 1, 2].
\<close>

theorem Throughput_departed_counts:
  "(\<exists>t. Throughput_updates (Throughput_init ids) calls = Inr t \<and>
        vehicles_left_count t e =
          (if observations_of e calls = [] then None
           else Some (spec_departed_counts (observations_of e calls))))
   \<and> (\<exists>t. Throughput_updates (Throughput_init ids)
             [(e, {''A'', ''B''}), (e, {''B'', ''C''}), (e, {})] = Inr t \<and>
           vehicles_left_count t e = Some [0, 1, 2])"
proof
  have init: "vehicles_left_count (Throughput_init ids) e = None"
             "tp_vehicles_in_edge (Throughput_init ids) e = None"
    by (simp_all add: Throughput_init_def)
  show "\<exists>t. Throughput_updates (Throughput_init ids) calls = Inr t \<and>
        vehicles_left_count t e =
          (if observations_of e calls = [] then None
           else Some (spec_departed_counts (observations_of e calls)))"
    using Throughput_updates_general[OF throughput_consistent_init, of ids calls e]
    by (auto simp: init spec_departed_counts_def)
  let ?calls = "[(e, {''A'', ''B''}), (e, {''B'', ''C''}), (e, {})]"
  have obs: "observations_of e ?calls = [{''A'', ''B''}, {''B'', ''C''}, {}]"
    by (simp add: observations_of_def)
  have counts: "spec_departed_from None [{''A'', ''B''}, {''B'', ''C''}, {}] = [0, 1, 2]"
    by simp
  show "\<exists>t. Throughput_updates (Throughput_init ids) ?calls = Inr t \<and>
           vehicles_left_count t e = Some [0, 1, 2]"
    using Throughput_updates_general[OF throughput_consistent_init, of ids ?calls e]
    unfolding obs counts init by auto
qed

section \<open>FundamentalDiagram: parallel sequences\<close>

lemma FundamentalDiagram_update_lengths:
  assumes "data_len self ''speed'' = Some n" "data_len self ''flow'' = Some n"
          "data_len self ''vehicle_count'' = Some n"
  shows "\<exists>self'. FundamentalDiagram_update self mean_speed vehicle_ids = Inr self' \<and>
           data_len self' ''speed'' = Some (Suc n) \<and> data_len self' ''flow'' = Some (Suc n) \<and>
           data_len self' ''vehicle_count'' = Some (Suc n)"
proof -
  from assms obtain sp fl vc where
    d: "fd_data self ''speed'' = Some sp" "fd_data self ''flow'' = Some fl"
       "fd_data self ''vehicle_count'' = Some vc"
    and l: "length sp = n" "length fl = n" "length vc = n"
    by (auto simp: data_len_def)
  show ?thesis
    by (simp add: FundamentalDiagram_update_def dict_append_def d l data_len_def Let_def)
qed

lemma FundamentalDiagram_updates_lengths:
  assumes "data_len self ''speed'' = Some n" "data_len self ''flow'' = Some n"
          "data_len self ''vehicle_count'' = Some n"
  shows "\<exists>self'. FundamentalDiagram_updates self calls = Inr self' \<and>
           data_len self' ''speed'' = Some (n + length calls) \<and>
           data_len self' ''flow'' = Some (n + length calls) \<and>
           data_len self' ''vehicle_count'' = Some (n + length calls)"
  using assms
proof (induction calls arbitrary: self n)
  case Nil
  then show ?case by simp
next
  case (Cons c calls)
  obtain mean_speed vehicle_ids where c: "c = (mean_speed, vehicle_ids)" by (cases c)
  from FundamentalDiagram_update_lengths[OF Cons.prems, of mean_speed vehicle_ids]
  obtain self1 where s1: "FundamentalDiagram_update self mean_speed vehicle_ids = Inr self1"
      "data_len self1 ''speed'' = Some (Suc n)" "data_len self1 ''flow'' = Some (Suc n)"
      "data_len self1 ''vehicle_count'' = Some (Suc n)"
    by blast
  from Cons.IH[OF s1(2) s1(3) s1(4)] show ?case
    by (simp add: c s1(1))
qed

lemma FundamentalDiagram_init_lengths:
  "data_len (FundamentalDiagram_init e) ''speed'' = Some 0"
  "data_len (FundamentalDiagram_init e) ''flow'' = Some 0"
  "data_len (FundamentalDiagram_init e) ''vehicle_count'' = Some 0"
  by (simp_all add: FundamentalDiagram_init_def data_len_def)

text \<open>
  Claim C3. Start from a new FundamentalDiagram accumulator and make any finite sequence
  of \<^verbatim>\<open>update\<close> calls. No call raises, and afterwards the lists stored under
  \<^verbatim>\<open>'speed'\<close>, \<^verbatim>\<open>'flow'\<close> and \<^verbatim>\<open>'vehicle_count'\<close> all have as many elements as
  there were calls: the three have equal length after every call, each call having
  appended one element to each.
\<close>

theorem FundamentalDiagram_parallel_sequences:
  "\<exists>self. FundamentalDiagram_updates (FundamentalDiagram_init edge_id) calls = Inr self \<and>
      data_len self ''speed'' = Some (length calls) \<and>
      data_len self ''flow'' = Some (length calls) \<and>
      data_len self ''vehicle_count'' = Some (length calls)"
  using FundamentalDiagram_updates_lengths[OF FundamentalDiagram_init_lengths, of edge_id calls]
  by simp

section \<open>TimeDistance: slot arrays\<close>

lemma list_setitem_Some_iff:
  "(\<exists>ys. list_setitem xs i v = Some ys) \<longleftrightarrow> - int (length xs) \<le> i \<and> i < int (length xs)"
  by (auto simp: list_setitem_def Let_def)

lemma list_setitem_nonneg:
  "0 \<le> i \<Longrightarrow> i < int (length xs) \<Longrightarrow> list_setitem xs i v = Some (xs[nat i := v])"
  by (simp add: list_setitem_def Let_def)

lemma list_setitem_neg:
  "i < 0 \<Longrightarrow> - int (length xs) \<le> i \<Longrightarrow>
   list_setitem xs i v = Some (xs[nat (int (length xs) + i) := v])"
  by (simp add: list_setitem_def Let_def add.commute)

lemma list_setitem_None:
  "i < - int (length xs) \<or> int (length xs) \<le> i \<Longrightarrow> list_setitem xs i v = None"
  by (auto simp: list_setitem_def Let_def)

lemma TimeDistance_update_eq:
  "TimeDistance_update self v d s =
     (case list_setitem (slots_before self v) (s - start_time self) (Dist d) of
        None \<Rightarrow> Inl (IndexError, self\<lparr>td_data := (td_data self)(v \<mapsto> slots_before self v)\<rparr>)
      | Some slots' \<Rightarrow> Inr (self\<lparr>td_data := (td_data self)(v \<mapsto> slots')\<rparr>))"
  by (cases "td_data self v")
     (auto simp: TimeDistance_update_def slots_before_def Let_def fun_upd_idem
           split: option.splits)

lemma td_wf_slots_before: "td_wf self \<Longrightarrow> length (slots_before self v) = nat (time_diff self)"
  by (auto simp: td_wf_def slots_before_def ran_def split: option.splits)

lemma td_wf_upd:
  assumes "td_wf self" "length slots = nat (time_diff self)"
  shows "td_wf (self\<lparr>td_data := (td_data self)(v \<mapsto> slots)\<rparr>)"
  using assms by (auto simp: td_wf_def ran_def split: if_splits)

lemma td_wf_init: "\<exists>self. TimeDistance_init re ts = Inr self \<and> td_wf self \<and> timespan self = ts \<and> td_data self = Map.empty"
  by (simp add: TimeDistance_init_def td_wf_def)

lemma list_setitem_length: "list_setitem xs i v = Some ys \<Longrightarrow> length ys = length xs"
  by (auto simp: list_setitem_def Let_def split: if_splits)

lemma td_wf_update:
  assumes "td_wf self"
  shows "case TimeDistance_update self v d s of
           Inl (err, self') \<Rightarrow> td_wf self' \<and> timespan self' = timespan self
         | Inr self' \<Rightarrow> td_wf self' \<and> timespan self' = timespan self"
  using assms td_wf_slots_before[OF assms, of v]
  by (auto simp: TimeDistance_update_eq td_wf_upd list_setitem_length split: option.splits)

text \<open>
  Claim C2. Take a TimeDistance accumulator with window [start, end) and a vehicle it has
  no array for, and call \<^verbatim>\<open>update\<close> for that vehicle at a step s of the window. The
  call returns normally; the vehicle's array then has end - start slots, the slot at index
  s - start holds the distance, and every other slot holds the sentinel. For the window
  [start, start + 10) and s = start + 5 the array is five sentinels, the distance, and
  four sentinels.
\<close>

theorem TimeDistance_first_observation:
  assumes "td_wf self" and "timespan self = (start, end)"
    and "td_data self vehicle_id = None" and "start \<le> s" and "s < end"
  shows "\<exists>self' slots.
           TimeDistance_update self vehicle_id distance s = Inr self' \<and>
           td_data self' vehicle_id = Some slots \<and>
           length slots = nat (end - start) \<and>
           slots ! nat (s - start) = Dist distance \<and>
           (\<forall>i < length slots. i \<noteq> nat (s - start) \<longrightarrow> slots ! i = NaN) \<and>
           (end = start + 10 \<and> s = start + 5 \<longrightarrow>
              slots = [NaN, NaN, NaN, NaN, NaN, Dist distance, NaN, NaN, NaN, NaN])"
proof -
  from assms(1,2) have td: "time_diff self = end - start" "start_time self = start"
    by (simp_all add: td_wf_def)
  let ?new = "replicate (nat (end - start)) NaN"
  have before: "slots_before self vehicle_id = ?new"
    by (simp add: slots_before_def assms(3) td)
  have idx: "0 \<le> s - start" "s - start < int (length ?new)"
    using assms(4,5) by simp_all
  have set: "list_setitem ?new (s - start) (Dist distance) = Some (?new[nat (s - start) := Dist distance])"
    using list_setitem_nonneg[OF idx] .
  let ?slots = "?new[nat (s - start) := Dist distance]"
  have upd: "TimeDistance_update self vehicle_id distance s =
               Inr (self\<lparr>td_data := (td_data self)(vehicle_id \<mapsto> ?slots)\<rparr>)"
    by (simp add: TimeDistance_update_eq before td set)
  have lt: "nat (s - start) < nat (end - start)"
    using assms(4,5) by simp
  have ten: "end = start + 10 \<and> s = start + 5 \<longrightarrow>
               ?slots = [NaN, NaN, NaN, NaN, NaN, Dist distance, NaN, NaN, NaN, NaN]"
    by (simp add: numeral_eq_Suc)
  show ?thesis
    using upd lt ten by (intro exI[of _ "self\<lparr>td_data := (td_data self)(vehicle_id \<mapsto> ?slots)\<rparr>"] exI[of _ ?slots]) (simp add: nth_list_update)
qed

theorem TimeDistance_first_observation_witness:
  "\<exists>self0. TimeDistance_init (''in'', ''out'') (3, 13) = Inr self0 \<and>
      td_wf self0 \<and> timespan self0 = (3, 13) \<and> td_data self0 ''veh0'' = None \<and>
      (3::int) \<le> 8 \<and> (8::int) < 13 \<and>
      (\<exists>self'. TimeDistance_update self0 ''veh0'' 42 8 = Inr self' \<and>
         td_data self' ''veh0'' =
           Some [NaN, NaN, NaN, NaN, NaN, Dist 42, NaN, NaN, NaN, NaN])"
proof -
  obtain self0 where s0: "TimeDistance_init (''in'', ''out'') (3, 13) = Inr self0"
      "td_wf self0" "timespan self0 = (3, 13)" "td_data self0 = Map.empty"
    using td_wf_init[of "(''in'', ''out'')" "(3, 13)"] by blast
  have none: "td_data self0 ''veh0'' = None" by (simp add: s0(4))
  from TimeDistance_first_observation[OF s0(2) s0(3) none, of 8 42]
  show ?thesis using s0 none by auto
qed

text \<open>
  Claim C9. Take a TimeDistance accumulator with window [start, end), any vehicle and a
  step s of the window, and call \<^verbatim>\<open>update\<close> for the vehicle at s with distance d1
  and then again at s with distance d2. Both calls return normally; the vehicle's array
  has the same length after the second call as after the first, its slot at index
  s - start holds d1 after the first call and d2 after the second, every other slot is
  as the first call left it, and no other vehicle's array changes.
\<close>

theorem TimeDistance_overwrite:
  assumes "td_wf self" and "timespan self = (start, end)" and "start \<le> s" and "s < end"
  shows "\<exists>self1 self2 slots1 slots2.
           TimeDistance_update self vehicle_id d1 s = Inr self1 \<and>
           TimeDistance_update self1 vehicle_id d2 s = Inr self2 \<and>
           td_data self1 vehicle_id = Some slots1 \<and>
           td_data self2 vehicle_id = Some slots2 \<and>
           length slots2 = length slots1 \<and>
           nat (s - start) < length slots2 \<and>
           slots1 ! nat (s - start) = Dist d1 \<and>
           slots2 ! nat (s - start) = Dist d2 \<and>
           (\<forall>i < length slots2. i \<noteq> nat (s - start) \<longrightarrow> slots2 ! i = slots1 ! i) \<and>
           (\<forall>other. other \<noteq> vehicle_id \<longrightarrow> td_data self2 other = td_data self1 other)"
proof -
  from assms(1,2) have td: "time_diff self = end - start" "start_time self = start"
    by (simp_all add: td_wf_def)
  let ?k = "nat (s - start)"
  let ?b = "slots_before self vehicle_id"
  have len: "length ?b = nat (end - start)"
    using td_wf_slots_before[OF assms(1), of vehicle_id] td by simp
  have idx: "0 \<le> s - start" "s - start < int (length ?b)"
    using assms(3,4) len by simp_all
  let ?slots1 = "?b[?k := Dist d1]"
  let ?self1 = "self\<lparr>td_data := (td_data self)(vehicle_id \<mapsto> ?slots1)\<rparr>"
  have u1: "TimeDistance_update self vehicle_id d1 s = Inr ?self1"
    by (simp add: TimeDistance_update_eq td list_setitem_nonneg[OF idx])
  have b1: "slots_before ?self1 vehicle_id = ?slots1"
    by (simp add: slots_before_def)
  have idx1: "0 \<le> s - start" "s - start < int (length ?slots1)"
    using idx by simp_all
  let ?slots2 = "?slots1[?k := Dist d2]"
  let ?self2 = "?self1\<lparr>td_data := (td_data ?self1)(vehicle_id \<mapsto> ?slots2)\<rparr>"
  have u2: "TimeDistance_update ?self1 vehicle_id d2 s = Inr ?self2"
    unfolding TimeDistance_update_eq b1 using list_setitem_nonneg[OF idx1] td by simp
  have k: "?k < length ?b" using idx by simp
  show ?thesis
    apply (rule exI[of _ ?self1], rule exI[of _ ?self2])
    apply (rule exI[of _ ?slots1], rule exI[of _ ?slots2])
    using u1 u2 k by (simp add: nth_list_update)
qed

theorem TimeDistance_overwrite_witness:
  "\<exists>self0. TimeDistance_init (''in'', ''out'') (3, 6) = Inr self0 \<and>
      td_wf self0 \<and> timespan self0 = (3, 6) \<and> (3::int) \<le> 4 \<and> (4::int) < 6 \<and>
      (\<exists>self1 self2.
         TimeDistance_update self0 ''veh0'' 10 4 = Inr self1 \<and>
         TimeDistance_update self1 ''veh0'' 25 4 = Inr self2 \<and>
         td_data self1 ''veh0'' = Some [NaN, Dist 10, NaN] \<and>
         td_data self2 ''veh0'' = Some [NaN, Dist 25, NaN])"
proof -
  obtain self0 where s0: "TimeDistance_init (''in'', ''out'') (3, 6) = Inr self0"
      "td_wf self0" "timespan self0 = (3, 6)" "td_data self0 = Map.empty"
    using td_wf_init[of "(''in'', ''out'')" "(3, 6)"] by blast
  have le: "(3::int) \<le> 4" and lt: "(4::int) < 6" by simp_all
  from TimeDistance_overwrite[OF s0(2) s0(3) le lt, of "''veh0''" 10 25]
  obtain self1 self2 slots1 slots2 where r:
      "TimeDistance_update self0 ''veh0'' 10 4 = Inr self1"
      "TimeDistance_update self1 ''veh0'' 25 4 = Inr self2"
      "td_data self1 ''veh0'' = Some slots1" "td_data self2 ''veh0'' = Some slots2"
    by auto
  have t0: "time_diff self0 = 3" "start_time self0 = 3"
    using s0(2,3) by (simp_all add: td_wf_def)
  have e1: "self1 = self0\<lparr>td_data := (td_data self0)(''veh0'' \<mapsto> [NaN, Dist 10, NaN])\<rparr>"
    using r(1) by (simp add: TimeDistance_update_eq slots_before_def s0(4) t0
        list_setitem_def numeral_eq_Suc)
  have e2: "td_data self2 ''veh0'' = Some [NaN, Dist 25, NaN]"
    using r(2) unfolding e1
    by (auto simp: TimeDistance_update_eq slots_before_def t0 list_setitem_def)
  show ?thesis using s0 r(1,2) e1 e2 by auto
qed

text \<open>
  Claim C10. Take a TimeDistance accumulator with window [start, end) of length
  L = end - start and call \<^verbatim>\<open>update\<close> at a step s. When start - L \<le> s < start the
  call returns normally and writes the distance into the slot at index L + (s - start) of
  the vehicle's array, an index counted from the end of the array. The call raises
  IndexError exactly when s < start - L or s \<ge> end, and returns normally exactly when
  start - L \<le> s < end.
\<close>

theorem TimeDistance_out_of_window:
  assumes "td_wf self" and "timespan self = (start, end)" and "L = end - start"
  shows "(start - L \<le> s \<and> s < start \<longrightarrow>
            (\<exists>self'. TimeDistance_update self vehicle_id distance s = Inr self' \<and>
               td_data self' vehicle_id =
                 Some ((slots_before self vehicle_id)[nat (L + (s - start)) := Dist distance]) \<and>
               nat (L + (s - start)) < length (slots_before self vehicle_id)))
       \<and> ((\<exists>self'. TimeDistance_update self vehicle_id distance s = Inl (IndexError, self'))
              \<longleftrightarrow> s < start - L \<or> end \<le> s)
       \<and> ((\<exists>self'. TimeDistance_update self vehicle_id distance s = Inr self')
              \<longleftrightarrow> start - L \<le> s \<and> s < end)"
proof -
  from assms have td: "time_diff self = L" "start_time self = start"
    by (simp_all add: td_wf_def)
  let ?b = "slots_before self vehicle_id"
  have len: "length ?b = nat L"
    using td_wf_slots_before[OF assms(1), of vehicle_id] td by simp
  have neg: "start - L \<le> s \<and> s < start \<longrightarrow>
            (\<exists>self'. TimeDistance_update self vehicle_id distance s = Inr self' \<and>
               td_data self' vehicle_id = Some (?b[nat (L + (s - start)) := Dist distance]) \<and>
               nat (L + (s - start)) < length ?b)"
  proof
    assume a: "start - L \<le> s \<and> s < start"
    then have Lpos: "0 < L" by simp
    have i: "s - start < 0" "- int (length ?b) \<le> s - start"
      using a len Lpos by simp_all
    have "int (length ?b) = L" using len Lpos by simp
    with list_setitem_neg[OF i, of "Dist distance"]
    have "list_setitem ?b (s - start) (Dist distance) = Some (?b[nat (L + (s - start)) := Dist distance])"
      by simp
    then show "\<exists>self'. TimeDistance_update self vehicle_id distance s = Inr self' \<and>
               td_data self' vehicle_id = Some (?b[nat (L + (s - start)) := Dist distance]) \<and>
               nat (L + (s - start)) < length ?b"
      using a len by (simp add: TimeDistance_update_eq td)
  qed
  have ok: "(\<exists>ys. list_setitem ?b (s - start) (Dist distance) = Some ys)
              \<longleftrightarrow> start - L \<le> s \<and> s < end"
    unfolding list_setitem_Some_iff len using assms(3) by auto
  have raise: "(\<exists>self'. TimeDistance_update self vehicle_id distance s = Inl (IndexError, self'))
              \<longleftrightarrow> s < start - L \<or> end \<le> s"
    using ok by (auto simp: TimeDistance_update_eq td split: option.splits)
  have ret: "(\<exists>self'. TimeDistance_update self vehicle_id distance s = Inr self')
              \<longleftrightarrow> start - L \<le> s \<and> s < end"
    using ok by (auto simp: TimeDistance_update_eq td split: option.splits)
  from neg raise ret show ?thesis by blast
qed

theorem TimeDistance_out_of_window_witness:
  "\<exists>self0. TimeDistance_init (''in'', ''out'') (10, 13) = Inr self0 \<and>
      td_wf self0 \<and> timespan self0 = (10, 13) \<and> (3::int) = 13 - 10 \<and>
      (10::int) - 3 \<le> 8 \<and> (8::int) < 10 \<and>
      (\<exists>self'. TimeDistance_update self0 ''veh0'' 7 8 = Inr self' \<and>
         td_data self' ''veh0'' = Some [NaN, Dist 7, NaN]) \<and>
      (\<exists>self'. TimeDistance_update self0 ''veh0'' 7 6 = Inl (IndexError, self')) \<and>
      (\<exists>self'. TimeDistance_update self0 ''veh0'' 7 13 = Inl (IndexError, self'))"
proof -
  obtain self0 where s0: "TimeDistance_init (''in'', ''out'') (10, 13) = Inr self0"
      "td_wf self0" "timespan self0 = (10, 13)" "td_data self0 = Map.empty"
    using td_wf_init[of "(''in'', ''out'')" "(10, 13)"] by blast
  have L: "(3::int) = 13 - 10" by simp
  have t0: "time_diff self0 = 3"
    using s0(2,3) by (simp add: td_wf_def)
  have b: "slots_before self0 ''veh0'' = [NaN, NaN, NaN]"
    by (simp add: slots_before_def s0(4) t0 numeral_eq_Suc)
  note th = TimeDistance_out_of_window[OF s0(2) s0(3) L, of _ "''veh0''" 7]
  have one: "\<exists>self'. TimeDistance_update self0 ''veh0'' 7 8 = Inr self' \<and>
         td_data self' ''veh0'' = Some [NaN, Dist 7, NaN]"
    using th[of 8] unfolding b by simp
  have two: "\<exists>self'. TimeDistance_update self0 ''veh0'' 7 6 = Inl (IndexError, self')"
    using th[of 6] by simp
  have three: "\<exists>self'. TimeDistance_update self0 ''veh0'' 7 13 = Inl (IndexError, self')"
    using th[of 13] by simp
  show ?thesis using s0 one two three by auto
qed

section \<open>DataCollector: the tracked edges\<close>

lemma trim_edges_Nil: "trim_edges [] = Inl IndexError"
  by (simp add: trim_edges.simps)

lemma trim_edges_snoc:
  "trim_edges (es @ [e]) = (if boundary e then trim_edges es else Inr (es @ [e]))"
  by (subst trim_edges.simps) (simp add: boundary_def)

lemma trim_edges_spec:
  "trim_edges es =
     (if list_all boundary es then Inl IndexError else Inr (spec_tracked_edges es))"
proof (induction es rule: rev_induct)
  case Nil
  show ?case by (simp add: trim_edges_Nil)
next
  case (snoc e es)
  show ?case
    unfolding trim_edges_snoc snoc.IH
    by (simp add: spec_tracked_edges_def)
qed

text \<open>
  Claim C5. The constructor is to keep the edge list without its trailing boundary edges,
  however many there are. It does so when some edge of the list is not a boundary edge
  (\<open>trim_edges_spec\<close>). When every edge of the list is a boundary edge, or the list is
  empty, the loop reads \<^verbatim>\<open>edges[-1]\<close> of the empty list and the constructor raises
  IndexError: shown here for the list of \<^verbatim>\<open>in-source\<close> and \<^verbatim>\<open>out-sink\<close> and for the
  empty list.
\<close>

theorem DataCollector_init_only_boundary_edges:
  "DataCollector_init (sim\<lparr>edge_getIDList := [''in-source'', ''out-sink'']\<rparr>) listener_id
     = Inl IndexError \<and>
   DataCollector_init (sim\<lparr>edge_getIDList := []\<rparr>) listener_id = Inl IndexError"
  by (simp add: DataCollector_init_def trim_edges_spec boundary_def endswith_def suffix_def)

lemma DataCollector_init_edges:
  assumes "\<not> list_all boundary (edge_getIDList sim)"
  shows "\<exists>self. DataCollector_init sim listener_id = Inr self \<and>
           edges self = spec_tracked_edges (edge_getIDList sim) \<and> dc_id self = listener_id"
  using assms by (simp add: DataCollector_init_def trim_edges_spec)

text \<open>
  \<^verbatim>\<open>self.edges\<close> is assigned in the constructor only: no other method changes it.
\<close>

lemma edges_assigned_once:
  "edges (add_waiting_time self acc) = edges self"
  "edges (fst (remove_waiting_time self acc)) = edges self"
  "edges (add_throughput self acc) = edges self"
  "edges (fst (remove_throughput self acc)) = edges self"
  "edges (fst (remove_fundamental_diagram self acc)) = edges self"
  "edges (add_time_distance_diagram self acc) = edges self"
  "edges (fst (remove_time_distance_diagram self acc)) = edges self"
  "edges (fst (stop_collecting removeStepListener (self, w))) = edges self"
  "add_fundamental_diagram sim (self, h) acc = Inr (self', h') \<Longrightarrow> edges self' = edges self"
  "step sim (self, h) k = Inr ((self', h'), b) \<Longrightarrow> edges self' = edges self"
  "step sim (self, h) k = Inl (err, self', h') \<Longrightarrow> self' = self"
  by (auto simp: add_waiting_time_def remove_waiting_time_def add_throughput_def
      remove_throughput_def remove_fundamental_diagram_def add_time_distance_diagram_def
      remove_time_distance_diagram_def stop_collecting_def add_fundamental_diagram_def
      step_def Let_def split: option.splits sum.splits prod.splits)

section \<open>DataCollector: attaching, removing and stopping\<close>

text \<open>
  Claim C6. Each of the four \<^verbatim>\<open>remove_*\<close> operations, called with an accumulator that
  is not the one stored in its slot (another reference, or the slot is empty), returns
  False and leaves the collector unchanged; called with the stored accumulator it returns
  True and clears that slot and nothing else. The operations have no raising path.
\<close>

theorem remove_only_the_stored_accumulator:
  "(waiting_time self \<noteq> Some acc \<longrightarrow> remove_waiting_time self acc = (self, False)) \<and>
   (waiting_time self = Some acc \<longrightarrow>
      remove_waiting_time self acc = (self\<lparr>waiting_time := None\<rparr>, True)) \<and>
   (throughput self \<noteq> Some acc \<longrightarrow> remove_throughput self acc = (self, False)) \<and>
   (throughput self = Some acc \<longrightarrow>
      remove_throughput self acc = (self\<lparr>throughput := None\<rparr>, True)) \<and>
   (fundamental_diagram self \<noteq> Some acc \<longrightarrow>
      remove_fundamental_diagram self acc = (self, False)) \<and>
   (fundamental_diagram self = Some acc \<longrightarrow>
      remove_fundamental_diagram self acc = (self\<lparr>fundamental_diagram := None\<rparr>, True)) \<and>
   (time_distance_diagram self \<noteq> Some acc \<longrightarrow>
      remove_time_distance_diagram self acc = (self, False)) \<and>
   (time_distance_diagram self = Some acc \<longrightarrow>
      remove_time_distance_diagram self acc = (self\<lparr>time_distance_diagram := None\<rparr>, True))"
  by (simp add: remove_waiting_time_def remove_throughput_def remove_fundamental_diagram_def
      remove_time_distance_diagram_def)

theorem remove_only_the_stored_accumulator_witness:
  "waiting_time demo_collector \<noteq> Some 7 \<and>
   remove_waiting_time demo_collector 7 = (demo_collector, False) \<and>
   waiting_time demo_collector = Some 1 \<and>
   remove_waiting_time demo_collector 1 = (demo_collector\<lparr>waiting_time := None\<rparr>, True) \<and>
   throughput demo_collector \<noteq> Some 1 \<and>
   remove_throughput demo_collector 1 = (demo_collector, False) \<and>
   throughput demo_collector = Some 2 \<and>
   remove_throughput demo_collector 2 = (demo_collector\<lparr>throughput := None\<rparr>, True) \<and>
   fundamental_diagram demo_collector \<noteq> Some 1 \<and>
   remove_fundamental_diagram demo_collector 1 = (demo_collector, False) \<and>
   fundamental_diagram demo_collector = Some 3 \<and>
   remove_fundamental_diagram demo_collector 3 =
     (demo_collector\<lparr>fundamental_diagram := None\<rparr>, True) \<and>
   time_distance_diagram demo_collector \<noteq> Some 1 \<and>
   remove_time_distance_diagram demo_collector 1 = (demo_collector, False) \<and>
   time_distance_diagram demo_collector = Some 4 \<and>
   remove_time_distance_diagram demo_collector 4 =
     (demo_collector\<lparr>time_distance_diagram := None\<rparr>, True)"
proof -
  have stored: "waiting_time demo_collector = Some 1" "throughput demo_collector = Some 2"
      "fundamental_diagram demo_collector = Some 3" "time_distance_diagram demo_collector = Some 4"
    by (simp_all add: demo_collector_def)
  show ?thesis
    using remove_only_the_stored_accumulator[of demo_collector 7]
      remove_only_the_stored_accumulator[of demo_collector 1]
      remove_only_the_stored_accumulator[of demo_collector 2]
      remove_only_the_stored_accumulator[of demo_collector 3]
      remove_only_the_stored_accumulator[of demo_collector 4]
    by (simp add: stored)
qed

text \<open>
  Claim C8. After one call of \<^verbatim>\<open>stop_collecting\<close> the collector is as before with
  its handle cleared, and \<^verbatim>\<open>initialised\<close> is false. Any number of further calls
  leaves the collector and the library's state as the first call left them, whatever
  \<^verbatim>\<open>removeStepListener\<close> does: it is not called again. With a library state that
  logs the calls of \<^verbatim>\<open>removeStepListener\<close>, two calls of \<^verbatim>\<open>stop_collecting\<close> log
  the handle once when there was one and nothing otherwise.
\<close>

theorem stop_collecting_idempotent:
  "fst (stop_collecting removeStepListener (self, w)) = self\<lparr>dc_id := None\<rparr> \<and>
   \<not> initialised (fst (stop_collecting removeStepListener (self, w))) \<and>
   (stop_collecting removeStepListener ^^ n) (stop_collecting removeStepListener (self, w))
     = stop_collecting removeStepListener (self, w) \<and>
   snd (stop_collecting (\<lambda>i log. log @ [i]) (stop_collecting (\<lambda>i log. log @ [i]) (self, [])))
     = (case dc_id self of None \<Rightarrow> [] | Some i \<Rightarrow> [i])"
proof -
  let ?stop = "stop_collecting removeStepListener"
  have first: "fst (?stop (self, w)) = self\<lparr>dc_id := None\<rparr>"
    by (cases "dc_id self") (simp_all add: stop_collecting_def)
  have again: "?stop (?stop (self, w)) = ?stop (self, w)"
    by (cases "dc_id self") (simp_all add: stop_collecting_def)
  have many: "(?stop ^^ n) (?stop (self, w)) = ?stop (self, w)"
    by (induction n) (simp_all add: again)
  have log: "snd (stop_collecting (\<lambda>i log. log @ [i]) (stop_collecting (\<lambda>i log. log @ [i]) (self, [])))
     = (case dc_id self of None \<Rightarrow> [] | Some i \<Rightarrow> [i])"
    by (cases "dc_id self") (simp_all add: stop_collecting_def)
  show ?thesis
    using first many log by (simp add: initialised_def)
qed

section \<open>Configurations that are not checked\<close>

text \<open>
  Claim C7 as the specification states it fails: the constructor of TimeDistance returns
  an accumulator for the inverted window (5, 3), and \<^verbatim>\<open>add_fundamental_diagram\<close>
  returns normally for an accumulator whose edge \<^verbatim>\<open>e9\<close> is the edge of no lane,
  leaving its length 0.
\<close>

theorem configuration_errors_counterexample:
  "(\<exists>self. TimeDistance_init (''e1'', ''e2'') (5, 3) = Inr self \<and> time_diff self = - 2) \<and>
   fd_edge_id (FundamentalDiagram_at demo_store 3) = ''e9'' \<and>
   map (lane_getEdgeID demo_sim) (lane_getIDList demo_sim) = [''e1'', ''e2''] \<and>
   (\<exists>self h. add_fundamental_diagram demo_sim (demo_collector\<lparr>fundamental_diagram := None\<rparr>, demo_store) 3
        = Inr (self, h) \<and> fundamental_diagram self = Some 3 \<and>
      edge_length (FundamentalDiagram_at h 3) = 0)"
  by (simp add: TimeDistance_init_def add_fundamental_diagram_def demo_sim_def demo_store_def
      demo_collector_def FundamentalDiagram_init_def)

lemma first_lane_length_None:
  "first_lane_length sim lanes edge_id = None \<longleftrightarrow>
     (\<forall>lane \<in> set lanes. lane_getEdgeID sim lane \<noteq> edge_id)"
  by (induction lanes) auto

text \<open>
  Claim C7, amended. Neither configuration is checked. Constructing a TimeDistance
  accumulator with end \<le> start returns an accumulator with that window, a
  \<^verbatim>\<open>time_diff\<close> of end - start, which is not positive, and no arrays. Attaching a
  FundamentalDiagram accumulator whose edge is the edge of no lane returns normally: the
  accumulator is stored in the slot, and the accumulator itself (its \<^verbatim>\<open>edge_length\<close>
  too) and every other object are unchanged.
\<close>

theorem configuration_is_not_checked:
  "(end \<le> start \<longrightarrow>
      (\<exists>self. TimeDistance_init route (start, end) = Inr self \<and>
         timespan self = (start, end) \<and> time_diff self = end - start \<and>
         time_diff self \<le> 0 \<and> td_data self = Map.empty)) \<and>
   ((\<forall>lane \<in> set (lane_getIDList sim).
        lane_getEdgeID sim lane \<noteq> fd_edge_id (FundamentalDiagram_at h fd)) \<longrightarrow>
      add_fundamental_diagram sim (self, h) fd = Inr (self\<lparr>fundamental_diagram := Some fd\<rparr>, h))"
  by (simp add: TimeDistance_init_def add_fundamental_diagram_def first_lane_length_None[symmetric])

theorem configuration_is_not_checked_witness:
  "(3::int) \<le> 5 \<and>
   (\<exists>self. TimeDistance_init (''e1'', ''e2'') (5, 3) = Inr self \<and> time_diff self = - 2) \<and>
   fd_edge_id (FundamentalDiagram_at demo_store 3) = ''e9'' \<and>
   lane_getEdgeID demo_sim ''e1_0'' \<noteq> ''e9'' \<and> lane_getEdgeID demo_sim ''e2_0'' \<noteq> ''e9'' \<and>
   add_fundamental_diagram demo_sim (demo_collector, demo_store) 3
     = Inr (demo_collector\<lparr>fundamental_diagram := Some 3\<rparr>, demo_store)"
proof -
  have lanes: "lane_getIDList demo_sim = [''e1_0'', ''e2_0'']"
    and e: "fd_edge_id (FundamentalDiagram_at demo_store 3) = ''e9''"
    and l: "lane_getEdgeID demo_sim ''e1_0'' \<noteq> ''e9''" "lane_getEdgeID demo_sim ''e2_0'' \<noteq> ''e9''"
    by (simp_all add: demo_sim_def demo_store_def FundamentalDiagram_init_def)
  show ?thesis
    using configuration_is_not_checked[of 3 5 "(''e1'', ''e2'')" demo_sim demo_store 3 demo_collector]
    by (auto simp: lanes e l)
qed

section \<open>DataCollector.step: the waiting-time snapshot\<close>

lemma average_wait_times_loop_result:
  "\<exists>m. average_wait_times_loop sim es acc = Inr m \<and>
       (\<forall>e. m e = (if e \<in> set es then Some (spec_average sim e) else acc e))"
proof (induction es arbitrary: acc)
  case Nil
  show ?case by simp
next
  case (Cons e es)
  let ?avg = "spec_average sim e"
  from Cons.IH[of "acc(e \<mapsto> ?avg)"] obtain m where
    m: "average_wait_times_loop sim es (acc(e \<mapsto> ?avg)) = Inr m"
       "\<forall>x. m x = (if x \<in> set es then Some (spec_average sim x) else (acc(e \<mapsto> ?avg)) x)"
    by blast
  have "average_wait_times_loop sim (e # es) acc = Inr m"
    using m(1)
    by (cases "edge_getLastStepVehicleNumber sim e = 0")
       (simp_all add: spec_average_def py_truediv_def Let_def)
  with m(2) show ?case by auto
qed

lemma Throughput_update_error:
  "Throughput_update self e vs = Inl (err, self') \<Longrightarrow> err = KeyError"
  by (auto simp: Throughput_update_def Let_def split: option.splits prod.splits)

lemma FundamentalDiagram_update_error:
  "FundamentalDiagram_update self v vs = Inl (err, self') \<Longrightarrow> err = KeyError"
  by (auto simp: FundamentalDiagram_update_def Let_def split: option.splits)

lemma TimeDistance_update_error:
  "TimeDistance_update self v d s = Inl (err, self') \<Longrightarrow> err = IndexError"
  by (auto simp: TimeDistance_update_eq split: option.splits)

lemma throughput_loop_keeps: "keeps_waiting_times h (throughput_loop sim es tp h)"
proof (induction es arbitrary: h)
  case Nil
  show ?case by (simp add: keeps_waiting_times_def)
next
  case (Cons e es)
  show ?case
  proof (cases "Throughput_update (Throughput_at h tp) e (set (edge_getLastStepVehicleIDs sim e))")
    case (Inl p)
    obtain err obj where p: "p = (err, obj)" by (cases p)
    with Inl Throughput_update_error have "err = KeyError" by blast
    with Inl p show ?thesis by (simp add: keeps_waiting_times_def)
  next
    case (Inr obj)
    let ?h = "h\<lparr>Throughput_at := (Throughput_at h)(tp := obj)\<rparr>"
    from Cons.IH[of ?h] Inr show ?thesis
      by (simp add: keeps_waiting_times_def split: sum.splits prod.splits)
  qed
qed

lemma step_throughput_keeps: "keeps_waiting_times h (step_throughput sim self h)"
  using throughput_loop_keeps
  by (simp add: step_throughput_def Let_def keeps_waiting_times_def split: option.splits)

lemma step_fundamental_diagram_keeps:
  "keeps_waiting_times h (step_fundamental_diagram sim self h)"
  by (auto simp: step_fundamental_diagram_def Let_def keeps_waiting_times_def py_truediv_def
      split: option.splits sum.splits prod.splits dest: FundamentalDiagram_update_error)

lemma time_distance_loop_keeps: "keeps_waiting_times h (time_distance_loop sim k vs td h)"
proof (induction vs arbitrary: h)
  case Nil
  show ?case by (simp add: keeps_waiting_times_def)
next
  case (Cons v vs)
  let ?obj = "TimeDistance_at h td"
  show ?case
  proof (cases "TimeDistance_update ?obj v (vehicle_getDistance sim v) k")
    case (Inl p)
    obtain err obj' where p: "p = (err, obj')" by (cases p)
    with Inl TimeDistance_update_error have "err = IndexError" by blast
    with Inl p Cons.IH[of h] show ?thesis
      by (simp add: keeps_waiting_times_def Let_def)
  next
    case (Inr obj')
    let ?h = "h\<lparr>TimeDistance_at := (TimeDistance_at h)(td := obj')\<rparr>"
    from Cons.IH[of ?h] Cons.IH[of h] Inr show ?thesis
      by (simp add: keeps_waiting_times_def Let_def split: sum.splits prod.splits)
  qed
qed

lemma step_time_distance_keeps: "keeps_waiting_times h (step_time_distance sim self h)"
  using time_distance_loop_keeps
  by (simp add: step_time_distance_def Let_def keeps_waiting_times_def split: option.splits)

text \<open>
  One call of \<^verbatim>\<open>step\<close> in the small simulation, with all four accumulators attached:
  the call returns \<^verbatim>\<open>True\<close>, the step counter becomes 1, and each accumulator has
  received its first record.
\<close>

lemma step_demo:
  "\<exists>self h. step demo_sim (demo_collector, demo_store) 0 = Inr ((self, h), True) \<and>
     step_count self = 1 \<and>
     map (\<lambda>m. (m ''e1'', m ''e2'', m ''out-sink'')) (waiting_times (WaitingTime_at h 1))
       = [(Some 3, Some 0, None)] \<and>
     vehicles_left_count (Throughput_at h 2) ''e1'' = Some [0] \<and>
     tp_vehicles_in_edge (Throughput_at h 2) ''e1'' = Some {''veh0'', ''veh1''} \<and>
     tp_vehicles_in_edge (Throughput_at h 2) ''e2'' = Some {} \<and>
     fd_data (FundamentalDiagram_at h 3) ''speed'' = Some [0] \<and>
     fd_data (FundamentalDiagram_at h 3) ''flow'' = Some [0] \<and>
     fd_data (FundamentalDiagram_at h 3) ''vehicle_count'' = Some [0] \<and>
     td_data (TimeDistance_at h 4) ''veh0'' = Some [Dist 30, NaN, NaN] \<and>
     td_data (TimeDistance_at h 4) ''veh1'' = Some [Dist 12, NaN, NaN]"
  by (simp add: step_def step_waiting_time_def step_throughput_def step_fundamental_diagram_def
      step_time_distance_def demo_sim_def demo_collector_def demo_store_def
      WaitingTime_init_def WaitingTime_update_def Throughput_init_def Throughput_update_def
      FundamentalDiagram_init_def FundamentalDiagram_update_def dict_append_def
      TimeDistance_update_def list_setitem_def py_truediv_def Let_def numeral_eq_Suc)

lemma keeps_waiting_times_trans:
  assumes "WaitingTime_at h1 = WaitingTime_at h0" and "keeps_waiting_times h1 r"
  shows "keeps_waiting_times h0 r"
  using assms by (simp add: keeps_waiting_times_def split: sum.splits prod.splits)

lemma step_after_waiting_time:
  assumes w: "step_waiting_time sim self h = Inr h1"
  shows "WaitingTime_at (store_after (step sim (self, h) k)) = WaitingTime_at h1 \<and>
         (\<forall>s. step sim (self, h) k \<noteq> Inl (ZeroDivisionError, s))"
proof -
  note k2 = step_throughput_keeps[of h1 sim self]
  show ?thesis
  proof (cases "step_throughput sim self h1")
    case (Inl p)
    then show ?thesis using k2 w
      by (auto simp: step_def store_after_def keeps_waiting_times_def split: prod.splits)
  next
    case h2: (Inr h2)
    note k3 = step_fundamental_diagram_keeps[of h2 sim self]
    show ?thesis
    proof (cases "step_fundamental_diagram sim self h2")
      case (Inl p)
      then show ?thesis using k2 k3 w h2
        by (auto simp: step_def store_after_def keeps_waiting_times_def split: prod.splits)
    next
      case h3: (Inr h3)
      note k4 = step_time_distance_keeps[of h3 sim self]
      show ?thesis
      proof (cases "step_time_distance sim self h3")
        case (Inl p)
        then show ?thesis using k2 k3 k4 w h2 h3
          by (auto simp: step_def store_after_def keeps_waiting_times_def split: prod.splits)
      next
        case h4: (Inr h4)
        then show ?thesis using k2 k3 k4 w h2 h3
          by (auto simp: step_def store_after_def keeps_waiting_times_def split: prod.splits)
      qed
    qed
  qed
qed

text \<open>
  Claim C4. Let a WaitingTime accumulator be attached. Whatever the simulation answers
  and however the call of \<^verbatim>\<open>step\<close> ends, the call appends exactly one snapshot to
  that accumulator; the snapshot gives every tracked edge its waiting time divided by its
  vehicle count, and 0 when the vehicle count is zero; and the call does not raise
  ZeroDivisionError.
\<close>

theorem step_waiting_time_zero_vehicles:
  assumes "waiting_time self = Some wt"
  shows "\<exists>snapshot.
           waiting_times (WaitingTime_at (store_after (step sim (self, h) k)) wt)
             = waiting_times (WaitingTime_at h wt) @ [snapshot] \<and>
           (\<forall>edge \<in> set (edges self).
              snapshot edge = Some (spec_average sim edge) \<and>
              (edge_getLastStepVehicleNumber sim edge = 0 \<longrightarrow> snapshot edge = Some 0)) \<and>
           (\<forall>s. step sim (self, h) k \<noteq> Inl (ZeroDivisionError, s))"
proof -
  obtain m where m: "average_wait_times_loop sim (edges self) Map.empty = Inr m"
      "\<forall>e. m e = (if e \<in> set (edges self) then Some (spec_average sim e) else None)"
    using average_wait_times_loop_result[of sim "edges self" Map.empty] by auto
  let ?h1 = "h\<lparr>WaitingTime_at := (WaitingTime_at h)
                (wt := WaitingTime_update (WaitingTime_at h wt) m)\<rparr>"
  have w: "step_waiting_time sim self h = Inr ?h1"
    by (simp add: step_waiting_time_def assms m(1))
  from step_after_waiting_time[OF w, of k]
  have after: "WaitingTime_at (store_after (step sim (self, h) k)) = WaitingTime_at ?h1"
    and nz: "\<forall>s. step sim (self, h) k \<noteq> Inl (ZeroDivisionError, s)"
    by blast+
  have "waiting_times (WaitingTime_at (store_after (step sim (self, h) k)) wt)
          = waiting_times (WaitingTime_at h wt) @ [m]"
    by (simp add: after WaitingTime_update_def)
  moreover have "\<forall>edge \<in> set (edges self).
      m edge = Some (spec_average sim edge) \<and>
      (edge_getLastStepVehicleNumber sim edge = 0 \<longrightarrow> m edge = Some 0)"
    using m(2) by (simp add: spec_average_def)
  ultimately show ?thesis using nz by blast
qed

theorem step_waiting_time_zero_vehicles_witness:
  "waiting_time demo_collector = Some 1 \<and>
   ''e2'' \<in> set (edges demo_collector) \<and>
   edge_getLastStepVehicleNumber demo_sim ''e2'' = 0 \<and>
   (\<exists>snapshot.
      waiting_times (WaitingTime_at (store_after (step demo_sim (demo_collector, demo_store) 0)) 1)
        = [snapshot] \<and>
      snapshot ''e2'' = Some 0 \<and> snapshot ''e1'' = Some 3)"
proof -
  have wt: "waiting_time demo_collector = Some 1"
    and es: "edges demo_collector = [''e1'', ''e2'']"
    by (simp_all add: demo_collector_def)
  have zero: "edge_getLastStepVehicleNumber demo_sim ''e2'' = 0"
    and avg: "spec_average demo_sim ''e1'' = 3"
    by (simp_all add: demo_sim_def spec_average_def)
  have before: "waiting_times (WaitingTime_at demo_store 1) = []"
    by (simp add: demo_store_def WaitingTime_init_def)
  from step_waiting_time_zero_vehicles[OF wt, of demo_sim demo_store 0]
  show ?thesis
    unfolding before es using wt zero avg by auto
qed

end
